theory Spec2Isabelle
  imports Main "HOL-Library.Word"
begin

section \<open>Go string primitives\<close>

text \<open>
  Go strings are byte sequences; \<^typ>\<open>string\<close> is a list of 8-bit characters.
  \<open>strings.HasPrefix s p\<close>, \<open>strings.Contains s sub\<close>, \<open>strings.Split s sep\<close> and
  \<open>strings.Replace s old new (-1)\<close> are modelled as the standard library defines them.
  The source calls \<open>Split\<close> and \<open>Replace\<close> with non-empty separators only
  (\<open>", "\<close>, \<open>":"\<close>, \<open>","\<close>, \<open>" "\<close>, \<open>"[::1]"\<close>); for an empty separator
  Go cuts after each UTF-8 sequence, the model after each byte.
\<close>

definition HasPrefix :: "string \<Rightarrow> string \<Rightarrow> bool" where
  "HasPrefix s p = (take (length p) s = p)"

fun Contains :: "string \<Rightarrow> string \<Rightarrow> bool" where
  "Contains [] sub = (sub = [])"
| "Contains (c # cs) sub = (HasPrefix (c # cs) sub \<or> Contains cs sub)"

text \<open>
  \<open>genSplit sep acc s\<close> scans \<open>s\<close> from the left; \<open>acc\<close> holds, reversed, the bytes of
  the field being read. At each occurrence of \<open>sep\<close> the field is closed and the scan
  goes on behind the separator, so occurrences do not overlap.
\<close>

fun genSplit :: "string \<Rightarrow> string \<Rightarrow> string \<Rightarrow> string list" where
  "genSplit sep acc [] = [rev acc]"
| "genSplit sep acc (c # cs) =
     (if HasPrefix (c # cs) sep
      then rev acc # genSplit sep [] (drop (length sep - 1) cs)
      else genSplit sep (c # acc) cs)"

definition Split :: "string \<Rightarrow> string \<Rightarrow> string list" where
  "Split s sep = (if sep = [] then map (\<lambda>c. [c]) s else genSplit sep [] s)"

fun ReplaceAll :: "string \<Rightarrow> string \<Rightarrow> string \<Rightarrow> string" where
  "ReplaceAll [] old new = []"
| "ReplaceAll (c # cs) old new =
     (if HasPrefix (c # cs) old
      then new @ ReplaceAll (drop (length old - 1) cs) old new
      else c # ReplaceAll cs old new)"

section \<open>Requests\<close>

text \<open>
  The fields of \<open>http.Request\<close> that the source reads. \<open>Header\<close> maps a header name
  to its values; \<open>Header.Get\<close> returns the first value, or the empty string.
\<close>

record request =
  RemoteAddr :: string
  RequestURI :: string
  Method :: string
  Header :: "string \<Rightarrow> string list"

definition Get :: "(string \<Rightarrow> string list) \<Rightarrow> string \<Rightarrow> string" where
  "Get h k = (case h k of [] \<Rightarrow> [] | v # _ \<Rightarrow> v)"

section \<open>Client address extraction\<close>

text \<open>
  The source indexes the results of \<open>Split\<close> without a check. With a non-empty
  separator \<open>Split\<close> returns at least one field (\<open>Split_nonempty\<close> below), so the
  index 0 is always in range.
\<close>

definition extractIpAddr :: "request \<Rightarrow> string" where
  "extractIpAddr req =
     (let fwdAddress = Get (Header req) ''X-Forwarded-For'';
          ipAddress =
            (if fwdAddress \<noteq> []
             then (let ips = Split fwdAddress '', ''
                   in if length ips > 1 then ips ! 0 else fwdAddress)
             else RemoteAddr req)
      in if Contains ipAddress ''[::1]''
         then Split (ReplaceAll ipAddress ''[::1]'' ''localhost'') '':'' ! 0
         else Split ipAddress '':'' ! 0)"


section \<open>Errors and log lines\<close>

text \<open>
  The error values of the repository's \<open>pkg/errors\<close> that the gateway returns, and the
  errors that come from outside it (\<open>url.Parse\<close>, the transport, the secret store).
  \<open>NewError t\<close> is \<open>errors.NewError(t)\<close>, also used for \<open>errors.Errorf\<close> with a
  constant text. A log line is kept as the logged value and its level.
\<close>

datatype error =
    ErrBearerTokenFormat
  | ErrTokenExpValidation
  | ErrTokenHMACValidation
  | ErrGetkeyView
  | NewError string
  | ExternalError string

datatype log_entry = LogError error | LogInfo string

text \<open>
  The errors of the JWT library (\<open>gbrlsnchs/jwt/v3\<close>) as \<open>jwt.Verify\<close> returns them:
  the two sentinels the source tests for, and every other failure (a token that
  cannot be decoded, a wrong algorithm, ...).
\<close>

datatype jwt_error = ErrExpValidation | ErrHMACVerification | ErrOtherJWT string

section \<open>Authorization gate\<close>

text \<open>
  \<open>jwt.Verify\<close> is a library call: the model takes it as the parameter \<open>Verify\<close>,
  applied to the token bytes, the HS256 key and the time the expiration validator was
  built with; \<open>None\<close> is a nil error. \<open>errors.ErrorIs\<close> compares with a sentinel.
  The function returns its error together with the lines it logged. Behind the
  prefix check the header holds a space, so \<open>Split\<close> returns two fields at least
  (\<open>Split_Bearer_length\<close> below) and the index 1 is in range.
\<close>

definition checkJWTSecretKeyFromRequest ::
  "(string \<Rightarrow> string \<Rightarrow> nat \<Rightarrow> jwt_error option) \<Rightarrow> nat \<Rightarrow> request \<Rightarrow> string
     \<Rightarrow> error option \<times> log_entry list" where
  "checkJWTSecretKeyFromRequest Verify now req key =
     (let header = Get (Header req) ''Authorization''
      in if \<not> HasPrefix header ''Bearer ''
         then (Some ErrBearerTokenFormat, [LogError ErrBearerTokenFormat])
         else (let token = Split header '' '' ! 1;
                   err = Verify token key now
               in if err = Some ErrExpValidation
                  then (Some ErrTokenExpValidation, [LogError ErrTokenExpValidation])
                  else if err = Some ErrHMACVerification
                  then (Some ErrTokenHMACValidation, [LogError ErrTokenHMACValidation])
                  else (None, [])))"

text \<open>
  \<open>ph.Service.GetKEY\<close> is the secret store's lookup; it returns a value and an error
  (\<open>None\<close> for nil). The model takes it as the parameter \<open>GetKEY\<close>.
\<close>

definition checkAPIKEYSecretKeyFromRequest ::
  "(string \<Rightarrow> string \<Rightarrow> string \<times> error option) \<Rightarrow> request \<Rightarrow> string \<Rightarrow> string
     \<Rightarrow> error option \<times> log_entry list" where
  "checkAPIKEYSecretKeyFromRequest GetKEY req engine key =
     (let (apikey, err) = GetKEY engine key;
          header = Get (Header req) ''X-API-KEY'';
          logged = (if err \<noteq> None then [LogError ErrGetkeyView] else [])
      in if apikey = header
         then (None, logged @ [LogInfo ''proxy: check secret from request OK''])
         else (Some (NewError ''Invalid API KEY''),
               logged @ [LogError (NewError ''proxy: Invalid API KEY'')]))"

section \<open>Responses and the response hook\<close>

record response =
  StatusCode :: nat
  RespHeader :: "string \<Rightarrow> string list"
  Body :: string

definition Set :: "(string \<Rightarrow> string list) \<Rightarrow> string \<Rightarrow> string \<Rightarrow> (string \<Rightarrow> string list)" where
  "Set h k v = h(k := [v])"

text \<open>
  \<open>modifyResponse err\<close> is the closure installed as \<open>ModifyResponse\<close>: applied to the
  upstream response it returns the response as it has mutated it, and its error.
\<close>

definition modifyResponse :: "error option \<Rightarrow> response \<Rightarrow> response \<times> error option" where
  "modifyResponse err resp =
     (let resp' = resp\<lparr>RespHeader := Set (RespHeader resp) ''X-Proxy'' ''Ngonx''\<rparr>
      in if err \<noteq> None then (resp', err) else (resp', None))"


section \<open>What the standard library contributes\<close>

text \<open>
  A parsed \<open>*url.URL\<close> is kept as its text; \<open>None\<close> is the nil pointer that
  \<open>url.Parse\<close> returns with an error. \<open>url_Parse\<close> is \<open>url.Parse\<close>, a parameter.
  \<open>httputil.NewSingleHostReverseProxy\<close> applied to a nil target dereferences it when
  the proxy is built in Go releases before 1.20 (\<open>nil_target_panics\<close>); later releases
  dereference it only when a request is directed, which panics then.
\<close>

type_synonym url = string

datatype failure = FatalNoBackends | NilPointerDereference | MuxRegistrationPanic

record go_env =
  url_Parse :: "string \<Rightarrow> error + url"
  nil_target_panics :: bool

section \<open>Gateway router\<close>

record endpoint =
  PathEndpoint :: string
  PathToProxy :: string
  PathProtected :: bool

record ProxyEndpoint =
  HostURI :: string
  Endpoints :: "endpoint list"

text \<open>
  A \<open>*httputil.ReverseProxy\<close> is an address into \<open>handles\<close>. Of the object the model
  keeps the three fields the source assigns. The two \<open>Director\<close> closures are data:
  the target they captured and, for a protected endpoint, the captured \<open>securityType\<close>,
  \<open>engine\<close> and \<open>key\<close>. \<open>Hook err\<close> is the closure \<open>modifyResponse(err)\<close>.
  \<open>ErrorHandler\<close> tells whether the source installed its handler (status 500 and the
  error's text); otherwise the library's default answers 502.
\<close>

datatype director =
    PlainDirector "url option"
  | ProtectedDirector "url option" string string string

datatype hook = NoHook | Hook "error option"

record gw_handle =
  Director :: director
  ModifyResponse :: hook
  ErrorHandler :: bool

datatype gw_event =
    Logged log_entry
  | CountersByEndpoint string url string string
  | TotalRequests string string

text \<open>
  \<open>proxy\<close> is the package-level variable of the source; \<open>mux\<close> is the default
  \<open>http.ServeMux\<close>: each registered pattern with the address of the handle that was
  the value of \<open>proxy\<close> when \<open>http.Handle\<close> was called.
\<close>

record gw_state =
  proxy :: "nat option"
  handles :: "gw_handle list"
  mux :: "(string \<times> nat) list"
  gw_trace :: "gw_event list"

record gw_env = go_env +
  GetKEY :: "string \<Rightarrow> string \<Rightarrow> string \<times> error option"
  Verify :: "string \<Rightarrow> string \<Rightarrow> nat \<Rightarrow> jwt_error option"
  now :: nat
  RoundTrip :: "url \<Rightarrow> request \<Rightarrow> error + response"

definition gw_init :: gw_state where
  "gw_init = \<lparr>proxy = None, handles = [], mux = [], gw_trace = []\<rparr>"

definition gw_logged :: "log_entry list \<Rightarrow> gw_state \<Rightarrow> gw_state" where
  "gw_logged ls s = s\<lparr>gw_trace := gw_trace s @ map Logged ls\<rparr>"

text \<open>
  One round of the loop of \<open>ProxyGateway\<close>. \<open>http.Handle\<close> panics on an empty
  pattern and on a pattern registered before.
\<close>

fun ProxyGateway_loop ::
  "'a go_env_scheme \<Rightarrow> string \<Rightarrow> string \<Rightarrow> string \<Rightarrow> string \<Rightarrow> endpoint list \<Rightarrow> gw_state
     \<Rightarrow> failure option \<times> gw_state" where
  "ProxyGateway_loop env hostURI engine key securityType [] s = (None, s)"
| "ProxyGateway_loop env hostURI engine key securityType (endpoint # rest) s =
     (let (target, s1) =
            (case url_Parse env (hostURI @ PathEndpoint endpoint) of
               Inr u \<Rightarrow> (Some u, s)
             | Inl e \<Rightarrow> (None, gw_logged [LogError e] s))
      in if target = None \<and> nil_target_panics env then (Some NilPointerDereference, s1)
         else
           (let a = length (handles s1);
                h = (if PathProtected endpoint
                     then \<lparr>Director = ProtectedDirector target securityType engine key,
                           ModifyResponse = NoHook, ErrorHandler = True\<rparr>
                     else \<lparr>Director = PlainDirector target,
                           ModifyResponse = NoHook, ErrorHandler = False\<rparr>);
                s2 = s1\<lparr>proxy := Some a, handles := handles s1 @ [h]\<rparr>
            in if PathToProxy endpoint = [] \<or> PathToProxy endpoint \<in> fst ` set (mux s2)
               then (Some MuxRegistrationPanic, s2)
               else ProxyGateway_loop env hostURI engine key securityType rest
                      (s2\<lparr>mux := mux s2 @ [(PathToProxy endpoint, a)]\<rparr>)))"

definition ProxyGateway ::
  "'a go_env_scheme \<Rightarrow> ProxyEndpoint \<Rightarrow> string \<Rightarrow> string \<Rightarrow> string \<Rightarrow> gw_state
     \<Rightarrow> failure option \<times> gw_state" where
  "ProxyGateway env endpoints engine key securityType s =
     ProxyGateway_loop env (HostURI endpoints) engine key securityType (Endpoints endpoints) s"

definition metricRegister :: "request \<Rightarrow> url \<Rightarrow> gw_event list" where
  "metricRegister req target =
     [CountersByEndpoint (RequestURI req) target (extractIpAddr req) (Method req),
      TotalRequests (RequestURI req) ''proxy'']"

text \<open>
  The assignment \<open>proxy.ModifyResponse = modifyResponse(err)\<close> inside a director: it
  writes through the package-level \<open>proxy\<close> as it is when the request is directed.
\<close>

definition assignModifyResponse :: "error option \<Rightarrow> gw_state \<Rightarrow> failure option \<times> gw_state" where
  "assignModifyResponse err s =
     (case proxy s of
        None \<Rightarrow> (Some NilPointerDereference, s)
      | Some a \<Rightarrow>
          if a < length (handles s)
          then (None, s\<lparr>handles := (handles s)[a := (handles s ! a)\<lparr>ModifyResponse := Hook err\<rparr>]\<rparr>)
          else (Some NilPointerDereference, s))"

text \<open>
  Running a director on the outgoing request. The library's original director
  rewrites the request's URL to the target (a nil target is dereferenced there).
\<close>

definition runDirector ::
  "'a gw_env_scheme \<Rightarrow> director \<Rightarrow> request \<Rightarrow> gw_state \<Rightarrow> failure option \<times> gw_state" where
  "runDirector env d req s =
     (case d of
        PlainDirector None \<Rightarrow> (Some NilPointerDereference, s)
      | PlainDirector (Some target) \<Rightarrow>
          (None, s\<lparr>gw_trace := gw_trace s @ metricRegister req target\<rparr>)
      | ProtectedDirector None securityType engine key \<Rightarrow> (Some NilPointerDereference, s)
      | ProtectedDirector (Some target) securityType engine key \<Rightarrow>
          (let s1 = s\<lparr>gw_trace := gw_trace s @ metricRegister req target\<rparr>
           in if securityType = ''jwt''
              then (let (err, ls) = checkJWTSecretKeyFromRequest (Verify env) (now env) req key
                    in assignModifyResponse err (gw_logged ls s1))
              else if securityType = ''apikey''
              then (let (err, ls) = checkAPIKEYSecretKeyFromRequest (GetKEY env) req engine key
                    in assignModifyResponse err (gw_logged ls s1))
              else (None, s1)))"

definition director_target :: "director \<Rightarrow> url option" where
  "director_target d =
     (case d of PlainDirector t \<Rightarrow> t | ProtectedDirector t securityType engine key \<Rightarrow> t)"

text \<open>
  What the client receives: the upstream response as forwarded, an error page written
  by an error handler (its status and, for the source's handler, the error whose text
  is the body), no route, or a panic of the serving goroutine.
\<close>

datatype gw_outcome =
    Forwarded response
  | ErrorReply nat "error option"
  | NotRouted
  | Panicked failure

definition errorHandler :: "gw_handle \<Rightarrow> error \<Rightarrow> gw_outcome" where
  "errorHandler h e = (if ErrorHandler h then ErrorReply 500 (Some e) else ErrorReply 502 None)"

text \<open>
  \<open>ReverseProxy.ServeHTTP\<close> of the handle at address \<open>a\<close>, as the library runs it:
  the director, the round trip, then the handle's own \<open>ModifyResponse\<close> as it is at
  that moment; an error of the round trip or of the hook goes to the error handler and
  nothing of the upstream response reaches the client.
\<close>

definition gw_ServeHTTP ::
  "'a gw_env_scheme \<Rightarrow> nat \<Rightarrow> request \<Rightarrow> gw_state \<Rightarrow> gw_outcome \<times> gw_state" where
  "gw_ServeHTTP env a req s =
     (case runDirector env (Director (handles s ! a)) req s of
        (Some f, s1) \<Rightarrow> (Panicked f, s1)
      | (None, s1) \<Rightarrow>
          (case director_target (Director (handles s ! a)) of
             None \<Rightarrow> (Panicked NilPointerDereference, s1)
           | Some target \<Rightarrow>
               (case RoundTrip env target req of
                  Inl e \<Rightarrow> (errorHandler (handles s1 ! a) e, s1)
                | Inr resp \<Rightarrow>
                    (case ModifyResponse (handles s1 ! a) of
                       NoHook \<Rightarrow> (Forwarded resp, s1)
                     | Hook err \<Rightarrow>
                         (case modifyResponse err resp of
                            (resp', Some e) \<Rightarrow> (errorHandler (handles s1 ! a) e, s1)
                          | (resp', None) \<Rightarrow> (Forwarded resp', s1))))))"

text \<open>
  A request that the mux routes to the pattern \<open>pattern\<close> is served by the handle that
  was registered under it.
\<close>

definition gateway ::
  "'a gw_env_scheme \<Rightarrow> string \<Rightarrow> request \<Rightarrow> gw_state \<Rightarrow> gw_outcome \<times> gw_state" where
  "gateway env pattern req s =
     (case map_of (mux s) pattern of
        None \<Rightarrow> (NotRouted, s)
      | Some a \<Rightarrow> if a < length (handles s) then gw_ServeHTTP env a req s else (NotRouted, s))"


section \<open>Load-balancing router\<close>

text \<open>
  Go's \<open>int\<close> is taken at 64 bits; \<open>retry < 3\<close> is the signed comparison and
  \<open>retry+1\<close>, \<open>attempts+1\<close> wrap around. The request context holds a value for the
  keys \<open>RETRY\<close> and \<open>ATTEMPTS\<close>, or none.
\<close>

type_synonym go_int = "64 word"

record req_context =
  RETRY :: "go_int option"
  ATTEMPTS :: "go_int option"

text \<open>
  The handle built by \<open>httputil.NewSingleHostReverseProxy(serverUrl)\<close> in \<open>StartLB\<close>;
  its \<open>ErrorHandler\<close> is the closure of the source, which captured \<open>serverUrl\<close> and
  the handle itself.
\<close>

datatype lb_handle = NewSingleHostReverseProxy "url option"

record backend =
  URL :: "url option"
  Alive :: bool
  ReverseProxy :: lb_handle

datatype lb_event =
    LogParseError error
  | LogConfigured "url option"
  | LogForwardError url error
  | LogAttempt go_int
  | Sleep nat
  | Forward url req_context

text \<open>
  \<open>backends\<close> and \<open>current\<close> are the server pool; \<open>clock\<close> counts the forwarding
  attempts made so far and \<open>trace\<close> records what the router did, in order.
\<close>

record lb_state =
  backends :: "backend list"
  current :: nat
  clock :: nat
  trace :: "lb_event list"

text \<open>
  \<open>Duration\<close> is \<open>backoff.Default.Duration\<close>, whose package is not part of the
  sources at hand: a parameter. \<open>upstream u k\<close> is the outcome of the forwarding
  attempt number \<open>k\<close> when it goes to the target \<open>u\<close>: \<open>None\<close> when the backend
  answers, the transport's error otherwise.
\<close>

record lb_env = go_env +
  Duration :: "go_int \<Rightarrow> nat"
  upstream :: "url \<Rightarrow> nat \<Rightarrow> error option"

definition lb_init :: lb_state where
  "lb_init = \<lparr>backends = [], current = 0, clock = 0, trace = []\<rparr>"

definition emit :: "lb_event list \<Rightarrow> lb_state \<Rightarrow> lb_state" where
  "emit es s = s\<lparr>trace := trace s @ es\<rparr>"

subsection \<open>Server pool\<close>

text \<open>
  Modelled from the spec: \<open>handlers.ServerPool\<close> and its methods are not part of the
  sources at hand. \<open>addBackend(backend)\<close>: appends to \<open>backends\<close>.
\<close>

definition AddBackend :: "backend \<Rightarrow> lb_state \<Rightarrow> lb_state" where
  "AddBackend b s = s\<lparr>backends := backends s @ [b]\<rparr>"

text \<open>
  Modelled from the spec: \<open>markBackendStatus(address, alive)\<close> finds the Backend
  matching \<open>address\<close> and sets its liveness flag; no-op if not found.
\<close>

fun markBackend :: "url option \<Rightarrow> bool \<Rightarrow> backend list \<Rightarrow> backend list" where
  "markBackend u alive [] = []"
| "markBackend u alive (b # bs) =
     (if URL b = u then b\<lparr>Alive := alive\<rparr> # bs else b # markBackend u alive bs)"

text \<open>
  Modelled from the spec: the liveness mutation of the pool, \<open>markBackendStatus\<close>,
  on the pool inside the router's state.
\<close>

definition MarkBackendStatus :: "url option \<Rightarrow> bool \<Rightarrow> lb_state \<Rightarrow> lb_state" where
  "MarkBackendStatus u alive s = s\<lparr>backends := markBackend u alive (backends s)\<rparr>"

text \<open>
  Modelled from the spec: \<open>nextPeer()\<close> increments \<open>cursor\<close>, then scans forward from
  \<open>cursor mod length\<close> for up to \<open>length\<close> positions, returning the first Backend
  whose liveness flag is true; none if no backend is alive. \<open>scanPeers bs c\<close> is the
  scan for the incremented cursor \<open>c\<close>.
\<close>

definition scanPeers :: "backend list \<Rightarrow> nat \<Rightarrow> backend option" where
  "scanPeers bs c =
     (let n = length bs
      in if n = 0 then None
         else find Alive (map (\<lambda>i. bs ! ((c mod n + i) mod n)) [0..<n]))"

text \<open>
  Modelled from the spec: \<open>nextPeer()\<close> on the pool inside the router's state; the
  cursor is incremented on every selection attempt regardless of outcome.
\<close>

definition GetNextPeer :: "lb_state \<Rightarrow> backend option \<times> lb_state" where
  "GetNextPeer s =
     (let s' = s\<lparr>current := current s + 1\<rparr> in (scanPeers (backends s') (current s'), s'))"

text \<open>
  Modelled from the spec: the counters are read from the context of the request;
  absence in the context is 0.
\<close>

definition GetRetryFromContext :: "req_context \<Rightarrow> go_int" where
  "GetRetryFromContext ctx = (case RETRY ctx of None \<Rightarrow> 0 | Some r \<Rightarrow> r)"

text \<open>
  Modelled from the spec: \<open>attempt\<close> is read from the context; absence is 0.
\<close>

definition GetAttemptsFromContext :: "req_context \<Rightarrow> go_int" where
  "GetAttemptsFromContext ctx = (case ATTEMPTS ctx of None \<Rightarrow> 0 | Some n \<Rightarrow> n)"

subsection \<open>The request path\<close>

text \<open>
  \<open>Lbalancer\<close>, \<open>ReverseProxy.ServeHTTP\<close> and the error handler of \<open>StartLB\<close> call
  each other in tail position. Each is a step that ends the request or names the call
  it hands the request to; \<open>lb_run\<close> follows the calls.
\<close>

datatype lb_call =
    CallLbalancer req_context
  | CallServeHTTP lb_handle req_context
  | CallErrorHandler "url option" req_context error

datatype lb_outcome = Served url | ServiceUnavailable | HandlerPanic failure

text \<open>
  Modelled from the spec: the router's entry point calls \<open>nextPeer()\<close>; if none is
  alive it responds with a service-unavailable failure, otherwise it forwards the
  request through the selected Backend's handle.
\<close>

definition Lbalancer :: "req_context \<Rightarrow> lb_state \<Rightarrow> (lb_outcome + lb_call) \<times> lb_state" where
  "Lbalancer ctx s =
     (case GetNextPeer s of
        (None, s') \<Rightarrow> (Inl ServiceUnavailable, s')
      | (Some peer, s') \<Rightarrow> (Inr (CallServeHTTP (ReverseProxy peer) ctx), s'))"

text \<open>
  \<open>ReverseProxy.ServeHTTP\<close> of a backend's handle: one forwarding attempt; on a
  transport error the library calls the handle's \<open>ErrorHandler\<close> with the request
  and the error.
\<close>

definition lb_ServeHTTP ::
  "'a lb_env_scheme \<Rightarrow> lb_handle \<Rightarrow> req_context \<Rightarrow> lb_state \<Rightarrow> (lb_outcome + lb_call) \<times> lb_state" where
  "lb_ServeHTTP env h ctx s =
     (case h of
        NewSingleHostReverseProxy None \<Rightarrow> (Inl (HandlerPanic NilPointerDereference), s)
      | NewSingleHostReverseProxy (Some u) \<Rightarrow>
          (let s1 = emit [Forward u ctx] (s\<lparr>clock := clock s + 1\<rparr>)
           in case upstream env u (clock s) of
                None \<Rightarrow> (Inl (Served u), s1)
              | Some e \<Rightarrow> (Inr (CallErrorHandler (Some u) ctx e), s1)))"

text \<open>The closure assigned to \<open>proxy.ErrorHandler\<close> in \<open>StartLB\<close>, for its \<open>serverUrl\<close>.\<close>

definition lb_ErrorHandler ::
  "'a lb_env_scheme \<Rightarrow> url option \<Rightarrow> req_context \<Rightarrow> error \<Rightarrow> lb_state
     \<Rightarrow> (lb_outcome + lb_call) \<times> lb_state" where
  "lb_ErrorHandler env serverUrl ctx e s =
     (case serverUrl of
        None \<Rightarrow> (Inl (HandlerPanic NilPointerDereference), s)
      | Some u \<Rightarrow>
          (let s1 = emit [LogForwardError u e] s;
               retry = GetRetryFromContext ctx
           in if retry <s 3
              then (Inr (CallServeHTTP (NewSingleHostReverseProxy serverUrl)
                           (ctx\<lparr>RETRY := Some (retry + 1)\<rparr>)),
                    emit [Sleep (Duration env retry)] s1)
              else (let s2 = MarkBackendStatus serverUrl False s1;
                        attempts = GetAttemptsFromContext ctx
                    in (Inr (CallLbalancer (ctx\<lparr>ATTEMPTS := Some (attempts + 1)\<rparr>)),
                        emit [LogAttempt attempts] s2))))"

definition lb_step ::
  "'a lb_env_scheme \<Rightarrow> lb_call \<Rightarrow> lb_state \<Rightarrow> (lb_outcome + lb_call) \<times> lb_state" where
  "lb_step env c s =
     (case c of
        CallLbalancer ctx \<Rightarrow> Lbalancer ctx s
      | CallServeHTTP h ctx \<Rightarrow> lb_ServeHTTP env h ctx s
      | CallErrorHandler serverUrl ctx e \<Rightarrow> lb_ErrorHandler env serverUrl ctx e s)"

text \<open>
  The chain of calls may not end (a backend may fail for ever while another marks
  it alive again), so \<open>lb_run\<close> takes the number of calls it may follow; \<open>None\<close> is a
  request still in flight after that many.
\<close>

fun lb_run ::
  "nat \<Rightarrow> 'a lb_env_scheme \<Rightarrow> lb_call \<Rightarrow> lb_state \<Rightarrow> (lb_outcome \<times> lb_state) option" where
  "lb_run 0 env c s = None"
| "lb_run (Suc n) env c s =
     (case lb_step env c s of
        (Inl r, s') \<Rightarrow> Some (r, s')
      | (Inr c', s') \<Rightarrow> lb_run n env c' s')"

subsection \<open>Startup\<close>

text \<open>
  The loop of \<open>StartLB\<close> over the tokens of the server list, up to the point where
  the server starts listening. The result is the failure that stopped the process,
  if any, and the pool and log as they are then.
\<close>

fun StartLB_tokens ::
  "'a go_env_scheme \<Rightarrow> string list \<Rightarrow> lb_state \<Rightarrow> failure option \<times> lb_state" where
  "StartLB_tokens env [] s = (None, s)"
| "StartLB_tokens env (tok # toks) s =
     (let (serverUrl, s1) =
            (case url_Parse env tok of
               Inr u \<Rightarrow> (Some u, s)
             | Inl err \<Rightarrow> (None, emit [LogParseError err] s))
      in if serverUrl = None \<and> nil_target_panics env then (Some NilPointerDereference, s1)
         else StartLB_tokens env toks
                (emit [LogConfigured serverUrl]
                   (AddBackend \<lparr>URL = serverUrl, Alive = True,
                                ReverseProxy = NewSingleHostReverseProxy serverUrl\<rparr> s1)))"

definition StartLB :: "'a go_env_scheme \<Rightarrow> string \<Rightarrow> failure option \<times> lb_state" where
  "StartLB env serverList =
     (if length serverList = 0 then (Some FatalNoBackends, lb_init)
      else StartLB_tokens env (Split serverList '','') lb_init)"

section \<open>Example inputs\<close>


definition req_hdr :: "string \<Rightarrow> string \<Rightarrow> request" where
  "req_hdr name v =
     \<lparr>RemoteAddr = ''192.0.2.7:5123'', RequestURI = ''/api/orders'', Method = ''GET'',
      Header = (\<lambda>k. if k = name then [v] else [])\<rparr>"

text \<open>
  A stand-in for \<open>jwt.Verify\<close> on four tokens: one whose signature does not verify,
  one that verifies and has expired, one that verifies and is current, and anything
  else, which cannot be decoded.
\<close>

definition Verify_sample :: "string \<Rightarrow> string \<Rightarrow> nat \<Rightarrow> jwt_error option" where
  "Verify_sample token key t =
     (if token = ''t.forged'' then Some ErrHMACVerification
      else if token = ''t.expired'' then Some ErrExpValidation
      else if token = ''t.good'' then None
      else Some (ErrOtherJWT ''jwt: malformed token''))"

text \<open>A secret store whose lookup fails, and one that holds \<open>secret\<close> under every name.\<close>

definition store_down :: "string \<Rightarrow> string \<Rightarrow> string \<times> error option" where
  "store_down engine key = ([], Some (ExternalError ''secret store: lookup failed''))"

definition store_ok :: "string \<Rightarrow> string \<Rightarrow> string \<Rightarrow> string \<times> error option" where
  "store_ok secret engine key = (secret, None)"

text \<open>
  A stand-in for \<open>url.Parse\<close> that agrees with it on the texts used below: a text
  that begins with a colon has no protocol scheme and is rejected, the others are
  well-formed URLs and are kept as they are.
\<close>

definition parse_sample :: "string \<Rightarrow> error + url" where
  "parse_sample tok =
     (if HasPrefix tok '':'' then Inl (ExternalError ''parse: missing protocol scheme'')
      else Inr tok)"

definition resp_ok :: response where
  "resp_ok = \<lparr>StatusCode = 200, RespHeader = (\<lambda>k. []), Body = ''ok''\<rparr>"

text \<open>A gateway environment whose upstreams always answer \<open>resp_ok\<close>.\<close>

definition gw_env_sample :: "(string \<Rightarrow> string \<Rightarrow> string \<times> error option) \<Rightarrow> gw_env" where
  "gw_env_sample store =
     \<lparr>url_Parse = parse_sample, nil_target_panics = True,
      GetKEY = store, Verify = Verify_sample, now = 1700000000,
      RoundTrip = (\<lambda>target req. Inr resp_ok)\<rparr>"


definition endpoints_mixed :: ProxyEndpoint where
  "endpoints_mixed =
     \<lparr>HostURI = ''http://orders:8080'',
      Endpoints = [\<lparr>PathEndpoint = ''/admin'', PathToProxy = ''/admin/'', PathProtected = True\<rparr>,
                   \<lparr>PathEndpoint = ''/v1'', PathToProxy = ''/public/'', PathProtected = False\<rparr>]\<rparr>"

definition go_env_sample :: "bool \<Rightarrow> go_env" where
  "go_env_sample np = \<lparr>url_Parse = parse_sample, nil_target_panics = np\<rparr>"

text \<open>
  A transport in which the backend \<open>a\<close> refuses the first \<open>n\<close> forwarding attempts
  of the run and every other attempt succeeds.
\<close>

definition fails_first :: "url \<Rightarrow> nat \<Rightarrow> url \<Rightarrow> nat \<Rightarrow> error option" where
  "fails_first a n u k =
     (if u = a \<and> k < n then Some (ExternalError ''dial tcp: connection refused'') else None)"

definition lb_env_sample :: "(url \<Rightarrow> nat \<Rightarrow> error option) \<Rightarrow> lb_env" where
  "lb_env_sample up =
     \<lparr>url_Parse = parse_sample, nil_target_panics = True,
      Duration = (\<lambda>retry. 100 * 2 ^ unat retry), upstream = up\<rparr>"

text \<open>A request as it arrives: its context holds neither counter.\<close>

definition ctx0 :: req_context where
  "ctx0 = \<lparr>RETRY = None, ATTEMPTS = None\<rparr>"

text \<open>
  The pool of two backends; with the cursor at 0 the first selection starts at index
  1, so the first request goes to \<open>http://a.internal:8080\<close>.
\<close>

definition backend_of :: "url \<Rightarrow> bool \<Rightarrow> backend" where
  "backend_of u alive =
     \<lparr>URL = Some u, Alive = alive, ReverseProxy = NewSingleHostReverseProxy (Some u)\<rparr>"

definition pool_ba :: lb_state where
  "pool_ba =
     \<lparr>backends = [backend_of ''http://b.internal:8080'' True, backend_of ''http://a.internal:8080'' True],
      current = 0, clock = 0, trace = []\<rparr>"

text \<open>
  A gateway with one protected endpoint, and its state after configuration with the
  security type \<open>apikey\<close>.
\<close>

definition endpoints_admin :: ProxyEndpoint where
  "endpoints_admin =
     \<lparr>HostURI = ''http://orders:8080'',
      Endpoints = [\<lparr>PathEndpoint = ''/admin'', PathToProxy = ''/admin/'', PathProtected = True\<rparr>]\<rparr>"

definition gw_admin_state :: gw_state where
  "gw_admin_state =
     \<lparr>proxy = Some 0,
      handles = [\<lparr>Director = ProtectedDirector (Some ''http://orders:8080/admin'')
                               ''apikey'' ''badger'' ''apikey'',
                  ModifyResponse = NoHook, ErrorHandler = True\<rparr>],
      mux = [(''/admin/'', 0)], gw_trace = []\<rparr>"

section \<open>Properties of the string primitives\<close>

lemma genSplit_nonempty: "genSplit sep acc s \<noteq> []"
  by (induction sep acc s rule: genSplit.induct) auto

lemma Split_nonempty: "sep \<noteq> [] \<Longrightarrow> Split s sep \<noteq> []"
  by (simp add: Split_def genSplit_nonempty)




lemma genSplit_no_sep:
  "sep \<noteq> [] \<Longrightarrow> \<not> Contains s sep \<Longrightarrow> genSplit sep acc s = [rev acc @ s]"
  by (induction s arbitrary: acc) auto



section \<open>Client address extraction: properties\<close>


lemma Split_no_sep: "sep \<noteq> [] \<Longrightarrow> \<not> Contains s sep \<Longrightarrow> Split s sep = [s]"
  by (simp add: Split_def genSplit_no_sep)





section \<open>Authorization gate: properties\<close>

lemma Contains_single: "Contains s [c] = (c \<in> set s)"
  by (induction s) (auto simp: HasPrefix_def)

lemma Split_Bearer_append: "Split (''Bearer '' @ r) '' '' = ''Bearer'' # Split r '' ''"
  by (simp add: Split_def HasPrefix_def)

lemma Split_Bearer:
  assumes "HasPrefix h ''Bearer ''"
  shows "Split h '' '' = ''Bearer'' # Split (drop 7 h) '' ''"
proof -
  have "length ''Bearer '' = 7"
    by simp
  with assms have "take 7 h = ''Bearer ''"
    unfolding HasPrefix_def by (simp only:)
  then have "h = ''Bearer '' @ drop 7 h"
    using append_take_drop_id [of 7 h] by simp
  then show ?thesis
    using Split_Bearer_append [of "drop 7 h"] by simp
qed

lemma Split_Bearer_length: "HasPrefix h ''Bearer '' \<Longrightarrow> 2 \<le> length (Split h '' '')"
  using Split_nonempty [of "'' ''" "drop 7 h"]
  by (cases "Split (drop 7 h) '' ''") (simp_all add: Split_Bearer)

lemma Split_Bearer_token:
  "CHR '' '' \<notin> set tok \<Longrightarrow> Split (''Bearer '' @ tok) '' '' ! 1 = tok"
  by (subst Split_Bearer_append) (simp add: Split_no_sep Contains_single)

text \<open>
  Claim C4. The JWT check returns the bearer-format error for every
  \<open>Authorization\<close> header without the prefix \<open>"Bearer "\<close>. For a header
  \<open>"Bearer " @ tok\<close> it returns the HMAC-validation error when the library reports
  that the signature of \<open>tok\<close> does not verify under the configured key, the
  expiration error when the library reports an expired \<open>exp\<close> claim, and nil when
  the library accepts the token.
\<close>

theorem checkJWT_cases:
  "(\<not> HasPrefix (Get (Header req) ''Authorization'') ''Bearer '' \<longrightarrow>
      fst (checkJWTSecretKeyFromRequest V t req key) = Some ErrBearerTokenFormat) \<and>
   (Get (Header req) ''Authorization'' = ''Bearer '' @ tok \<and> CHR '' '' \<notin> set tok \<longrightarrow>
      (V tok key t = Some ErrHMACVerification \<longrightarrow>
         fst (checkJWTSecretKeyFromRequest V t req key) = Some ErrTokenHMACValidation) \<and>
      (V tok key t = Some ErrExpValidation \<longrightarrow>
         fst (checkJWTSecretKeyFromRequest V t req key) = Some ErrTokenExpValidation) \<and>
      (V tok key t = None \<longrightarrow>
         fst (checkJWTSecretKeyFromRequest V t req key) = None))"
proof -
  have a: "fst (checkJWTSecretKeyFromRequest V t req key) = Some ErrBearerTokenFormat"
    if "\<not> HasPrefix (Get (Header req) ''Authorization'') ''Bearer ''"
    using that by (simp add: checkJWTSecretKeyFromRequest_def)
  have b: "fst (checkJWTSecretKeyFromRequest V t req key) =
             (case V tok key t of
                Some ErrExpValidation \<Rightarrow> Some ErrTokenExpValidation
              | Some ErrHMACVerification \<Rightarrow> Some ErrTokenHMACValidation
              | _ \<Rightarrow> None)"
    if h: "Get (Header req) ''Authorization'' = ''Bearer '' @ tok" "CHR '' '' \<notin> set tok"
  proof -
    have p: "HasPrefix (''Bearer '' @ tok) ''Bearer ''"
      by (simp add: HasPrefix_def)
    show ?thesis
      unfolding checkJWTSecretKeyFromRequest_def Let_def h(1)
      using p Split_Bearer_token [OF h(2)]
      by (simp split: option.split jwt_error.split)
  qed
  show ?thesis
    using a b by simp
qed

theorem checkJWT_cases_witness:
  "fst (checkJWTSecretKeyFromRequest Verify_sample 1700000000
          (req_hdr ''Authorization'' ''Basic dXNlcjpwdw=='') ''k'') = Some ErrBearerTokenFormat \<and>
   fst (checkJWTSecretKeyFromRequest Verify_sample 1700000000
          (req_hdr ''Authorization'' ''Bearer t.forged'') ''k'') = Some ErrTokenHMACValidation \<and>
   fst (checkJWTSecretKeyFromRequest Verify_sample 1700000000
          (req_hdr ''Authorization'' ''Bearer t.expired'') ''k'') = Some ErrTokenExpValidation \<and>
   fst (checkJWTSecretKeyFromRequest Verify_sample 1700000000
          (req_hdr ''Authorization'' ''Bearer t.good'') ''k'') = None"
proof -
  have "fst (checkJWTSecretKeyFromRequest Verify_sample 1700000000
          (req_hdr ''Authorization'' ''Basic dXNlcjpwdw=='') ''k'') = Some ErrBearerTokenFormat"
    using checkJWT_cases [where req = "req_hdr ''Authorization'' ''Basic dXNlcjpwdw==''"
        and V = Verify_sample and t = 1700000000 and key = "''k''" and tok = "[]"]
    by (simp add: req_hdr_def Get_def HasPrefix_def)
  moreover have "fst (checkJWTSecretKeyFromRequest Verify_sample 1700000000
          (req_hdr ''Authorization'' ''Bearer t.forged'') ''k'') = Some ErrTokenHMACValidation"
    using checkJWT_cases [where req = "req_hdr ''Authorization'' ''Bearer t.forged''"
        and V = Verify_sample and t = 1700000000 and key = "''k''" and tok = "''t.forged''"]
    by (simp add: req_hdr_def Get_def Verify_sample_def)
  moreover have "fst (checkJWTSecretKeyFromRequest Verify_sample 1700000000
          (req_hdr ''Authorization'' ''Bearer t.expired'') ''k'') = Some ErrTokenExpValidation"
    using checkJWT_cases [where req = "req_hdr ''Authorization'' ''Bearer t.expired''"
        and V = Verify_sample and t = 1700000000 and key = "''k''" and tok = "''t.expired''"]
    by (simp add: req_hdr_def Get_def Verify_sample_def)
  moreover have "fst (checkJWTSecretKeyFromRequest Verify_sample 1700000000
          (req_hdr ''Authorization'' ''Bearer t.good'') ''k'') = None"
    using checkJWT_cases [where req = "req_hdr ''Authorization'' ''Bearer t.good''"
        and V = Verify_sample and t = 1700000000 and key = "''k''" and tok = "''t.good''"]
    by (simp add: req_hdr_def Get_def Verify_sample_def)
  ultimately show ?thesis by simp
qed


text \<open>
  Claim C9. When the header has the bearer prefix and verification fails with an
  error that is neither the expiration-validation error nor the HMAC-verification
  error, the JWT check returns nil and logs nothing: the request passes the gate.
\<close>

theorem checkJWT_other_error_passes:
  "HasPrefix (Get (Header req) ''Authorization'') ''Bearer '' \<Longrightarrow>
   V (Split (Get (Header req) ''Authorization'') '' '' ! 1) key t = Some e \<Longrightarrow>
   e \<noteq> ErrExpValidation \<Longrightarrow> e \<noteq> ErrHMACVerification \<Longrightarrow>
   checkJWTSecretKeyFromRequest V t req key = (None, [])"
  by (simp add: checkJWTSecretKeyFromRequest_def Let_def)

theorem checkJWT_other_error_passes_witness:
  "HasPrefix (Get (Header (req_hdr ''Authorization'' ''Bearer not-a-jwt'')) ''Authorization'') ''Bearer '' \<and>
   Verify_sample (Split (Get (Header (req_hdr ''Authorization'' ''Bearer not-a-jwt'')) ''Authorization'') '' '' ! 1)
     ''k'' 1700000000 = Some (ErrOtherJWT ''jwt: malformed token'') \<and>
   checkJWTSecretKeyFromRequest Verify_sample 1700000000
     (req_hdr ''Authorization'' ''Bearer not-a-jwt'') ''k'' = (None, [])"
proof -
  have h: "HasPrefix (Get (Header (req_hdr ''Authorization'' ''Bearer not-a-jwt'')) ''Authorization'') ''Bearer ''"
    by (simp add: req_hdr_def Get_def HasPrefix_def)
  have v: "Verify_sample (Split (Get (Header (req_hdr ''Authorization'' ''Bearer not-a-jwt'')) ''Authorization'') '' '' ! 1)
     ''k'' 1700000000 = Some (ErrOtherJWT ''jwt: malformed token'')"
    by (simp add: req_hdr_def Get_def Split_def HasPrefix_def Verify_sample_def)
  from checkJWT_other_error_passes
         [where req = "req_hdr ''Authorization'' ''Bearer not-a-jwt''" and V = Verify_sample
            and key = "''k''" and t = 1700000000 and e = "ErrOtherJWT ''jwt: malformed token''",
          OF h v]
       h v
  show ?thesis by simp
qed


lemma checkAPIKEY_result:
  "fst (checkAPIKEYSecretKeyFromRequest G req engine key) =
     (if fst (G engine key) = Get (Header req) ''X-API-KEY'' then None
      else Some (NewError ''Invalid API KEY''))"
  by (simp add: checkAPIKEYSecretKeyFromRequest_def Let_def split: prod.split)

lemma checkAPIKEY_lookup_failure_any:
  "G engine key = (v, Some e) \<Longrightarrow> Get (Header req) ''X-API-KEY'' = v \<Longrightarrow>
   fst (checkAPIKEYSecretKeyFromRequest G req engine key) = None"
  by (simp add: checkAPIKEY_result)

text \<open>
  Claim C3 does not hold of the code where the lookup fails. The error of
  \<open>GetKEY\<close> is logged and then dropped: the header is still compared with the value
  that came back with the error. With a failing store that returns the empty string
  and a request without an \<open>X-API-KEY\<close> header the check returns nil.
\<close>

theorem checkAPIKEY_lookup_failure_passes:
  "checkAPIKEYSecretKeyFromRequest store_down (req_hdr ''Accept'' ''*/*'') ''badger'' ''apikey'' =
     (None, [LogError ErrGetkeyView, LogInfo ''proxy: check secret from request OK''])"
  by (simp add: checkAPIKEYSecretKeyFromRequest_def store_down_def req_hdr_def Get_def)


section \<open>Gateway router: properties\<close>

lemma gw_env_sample_fields:
  "url_Parse (gw_env_sample store) = parse_sample"
  "nil_target_panics (gw_env_sample store) = True"
  "GetKEY (gw_env_sample store) = store"
  "Verify (gw_env_sample store) = Verify_sample"
  "now (gw_env_sample store) = 1700000000"
  "RoundTrip (gw_env_sample store) = (\<lambda>target req. Inr resp_ok)"
  by (simp_all add: gw_env_sample_def)


lemma config_mixed:
  "ProxyGateway (gw_env_sample store) endpoints_mixed ''badger'' ''apikey'' ''apikey'' gw_init =
     (None, \<lparr>proxy = Some 1,
             handles = [\<lparr>Director = ProtectedDirector (Some ''http://orders:8080/admin'')
                                      ''apikey'' ''badger'' ''apikey'',
                         ModifyResponse = NoHook, ErrorHandler = True\<rparr>,
                        \<lparr>Director = PlainDirector (Some ''http://orders:8080/v1''),
                         ModifyResponse = NoHook, ErrorHandler = False\<rparr>],
             mux = [(''/admin/'', 0), (''/public/'', 1)], gw_trace = []\<rparr>)"
  by (simp add: ProxyGateway_def endpoints_mixed_def gw_env_sample_fields parse_sample_def
      HasPrefix_def gw_init_def)

lemma runDirector_protected_assigns_global:
  assumes "proxy s = Some b" "b < length (handles s)"
    and "securityType = ''jwt'' \<or> securityType = ''apikey''"
  shows "\<exists>err. handles (snd (runDirector env (ProtectedDirector (Some target) securityType engine key) req s)) =
           (handles s)[b := (handles s ! b)\<lparr>ModifyResponse := Hook err\<rparr>]"
  using assms
  by (auto simp: runDirector_def assignModifyResponse_def gw_logged_def Let_def split: prod.split)

lemma config_admin:
  "ProxyGateway (gw_env_sample store) endpoints_admin ''badger'' ''apikey'' ''apikey'' gw_init =
     (None, gw_admin_state)"
  by (simp add: ProxyGateway_def endpoints_admin_def gw_admin_state_def gw_env_sample_fields
      parse_sample_def HasPrefix_def gw_init_def)








text \<open>
  Claim C6 does not hold of the code. The director of a protected endpoint assigns
  the hook through the package-level variable \<open>proxy\<close>, which after configuration
  refers to the handle of the endpoint configured last. With a protected endpoint
  followed by an unprotected one, a request with a wrong key to the protected endpoint
  is forwarded unrejected, its handle keeps no hook, the error lands on the handle of
  the other endpoint, and the next request to that endpoint is rejected with it.
\<close>

theorem gateway_hook_lands_on_last_handle:
  "(let env = gw_env_sample (store_ok ''s3cret'');
        s0 = snd (ProxyGateway env endpoints_mixed ''badger'' ''apikey'' ''apikey'' gw_init);
        (r1, s1) = gateway env ''/admin/'' (req_hdr ''X-API-KEY'' ''wrong'') s0;
        (r2, s2) = gateway env ''/public/'' (req_hdr ''Accept'' ''*/*'') s1
    in r1 = Forwarded resp_ok \<and>
       map ModifyResponse (handles s1) = [NoHook, Hook (Some (NewError ''Invalid API KEY''))] \<and>
       r2 = ErrorReply 502 None)"
  by (simp add: config_mixed Let_def gateway_def gw_ServeHTTP_def runDirector_def
      director_target_def assignModifyResponse_def gw_logged_def
      checkAPIKEYSecretKeyFromRequest_def store_ok_def req_hdr_def Get_def
      gw_env_sample_fields modifyResponse_def errorHandler_def)


section \<open>Load-balancing router: properties\<close>

lemma retry_numerals:
  "(0::go_int) <s 3" "(1::go_int) <s 3" "(2::go_int) <s 3" "\<not> (3::go_int) <s 3"
  by (simp_all add: word_sless_alt)

lemma step_Lbalancer:
  "lb_step env (CallLbalancer ctx) s =
     (case scanPeers (backends s) (current s + 1) of
        None \<Rightarrow> (Inl ServiceUnavailable, s\<lparr>current := current s + 1\<rparr>)
      | Some peer \<Rightarrow> (Inr (CallServeHTTP (ReverseProxy peer) ctx), s\<lparr>current := current s + 1\<rparr>))"
  by (simp add: lb_step_def Lbalancer_def GetNextPeer_def Let_def split: option.split)

lemma step_ServeHTTP:
  "lb_step env (CallServeHTTP (NewSingleHostReverseProxy (Some u)) ctx) s =
     (case upstream env u (clock s) of
        None \<Rightarrow> (Inl (Served u), s\<lparr>clock := clock s + 1, trace := trace s @ [Forward u ctx]\<rparr>)
      | Some e \<Rightarrow> (Inr (CallErrorHandler (Some u) ctx e),
                   s\<lparr>clock := clock s + 1, trace := trace s @ [Forward u ctx]\<rparr>))"
  by (simp add: lb_step_def lb_ServeHTTP_def emit_def Let_def split: option.split)

lemma step_ErrorHandler_retry:
  "GetRetryFromContext ctx <s 3 \<Longrightarrow>
   lb_step env (CallErrorHandler (Some u) ctx e) s =
     (Inr (CallServeHTTP (NewSingleHostReverseProxy (Some u))
             (ctx\<lparr>RETRY := Some (GetRetryFromContext ctx + 1)\<rparr>)),
      s\<lparr>trace := trace s @ [LogForwardError u e, Sleep (Duration env (GetRetryFromContext ctx))]\<rparr>)"
  by (simp add: lb_step_def lb_ErrorHandler_def emit_def Let_def)

lemma step_ErrorHandler_reroute:
  "\<not> GetRetryFromContext ctx <s 3 \<Longrightarrow>
   lb_step env (CallErrorHandler (Some u) ctx e) s =
     (Inr (CallLbalancer (ctx\<lparr>ATTEMPTS := Some (GetAttemptsFromContext ctx + 1)\<rparr>)),
      s\<lparr>backends := markBackend (Some u) False (backends s),
        trace := trace s @ [LogForwardError u e, LogAttempt (GetAttemptsFromContext ctx)]\<rparr>)"
  by (simp add: lb_step_def lb_ErrorHandler_def emit_def MarkBackendStatus_def Let_def)

lemma lb_env_sample_fields:
  "url_Parse (lb_env_sample up) = parse_sample"
  "nil_target_panics (lb_env_sample up) = True"
  "Duration (lb_env_sample up) = (\<lambda>retry. 100 * 2 ^ unat retry)"
  "upstream (lb_env_sample up) = up"
  by (simp_all add: lb_env_sample_def)

lemma scanPeers_pool_ba:
  "scanPeers (backends pool_ba) 1 = Some (backend_of ''http://a.internal:8080'' True)"
  "scanPeers (markBackend (Some ''http://a.internal:8080'') False (backends pool_ba)) 2 =
     Some (backend_of ''http://b.internal:8080'' True)"
  by (simp_all add: scanPeers_def pool_ba_def backend_of_def upt_rec numeral_2_eq_2)

lemma scanPeers_in_pool: "scanPeers bs c = Some A \<Longrightarrow> A \<in> set bs \<and> Alive A"
proof -
  assume h: "scanPeers bs c = Some A"
  then have n: "length bs \<noteq> 0"
    by (auto simp: scanPeers_def)
  with h have "A \<in> set (map (\<lambda>i. bs ! ((c mod length bs + i) mod length bs)) [0..<length bs]) \<and> Alive A"
    by (auto simp: scanPeers_def Let_def find_Some_iff)
  then show ?thesis using n by auto
qed

lemma markBackend_dead:
  "A \<in> set bs \<Longrightarrow> distinct (map URL bs) \<Longrightarrow>
   A\<lparr>Alive := False\<rparr> \<in> set (markBackend (URL A) False bs) \<and>
   (\<forall>b \<in> set (markBackend (URL A) False bs). URL b = URL A \<longrightarrow> \<not> Alive b)"
proof (induction bs)
  case Nil
  then show ?case by simp
next
  case (Cons x xs)
  show ?case
  proof (cases "URL x = URL A")
    case True
    with Cons.prems have "x = A"
      by (auto simp: image_iff)
    with Cons.prems show ?thesis
      by (auto simp: image_iff)
  next
    case False
    with Cons show ?thesis by auto
  qed
qed

text \<open>
  Claim C1, as the code has it. The handler retries the same backend while the
  retry count read from the context is below 3, and the count starts at 0: a fresh
  request whose forwarding to backend A fails on four consecutive attempts (the
  first and three retries) makes the router sleep exactly three times, with the
  backoff durations for 0, 1 and 2, then mark the backend with A's address dead,
  log and increment the attempt counter in a derived context and re-enter
  \<open>Lbalancer\<close>, which selects again; when the backend B selected then answers, the
  request is served by B and no error reaches the client. Any number of calls from
  11 on is enough for the run to end.
\<close>

theorem four_failures_then_reroute:
  assumes "scanPeers (backends s) (current s + 1) = Some A"
    and "URL A = Some a" and "ReverseProxy A = NewSingleHostReverseProxy (Some a)"
    and "distinct (map URL (backends s))"
    and "RETRY ctx = None"
    and "upstream env a (clock s) = Some e0"
    and "upstream env a (clock s + 1) = Some e1"
    and "upstream env a (clock s + 2) = Some e2"
    and "upstream env a (clock s + 3) = Some e3"
    and "scanPeers (markBackend (Some a) False (backends s)) (current s + 2) = Some B"
    and "ReverseProxy B = NewSingleHostReverseProxy (Some b)"
    and "upstream env b (clock s + 4) = None"
  shows "lb_run (11 + k) env (CallLbalancer ctx) s =
     Some (Served b,
           s\<lparr>backends := markBackend (Some a) False (backends s),
             current := current s + 2,
             clock := clock s + 5,
             trace := trace s @
               [Forward a ctx, LogForwardError a e0, Sleep (Duration env 0),
                Forward a (ctx\<lparr>RETRY := Some 1\<rparr>), LogForwardError a e1, Sleep (Duration env 1),
                Forward a (ctx\<lparr>RETRY := Some 2\<rparr>), LogForwardError a e2, Sleep (Duration env 2),
                Forward a (ctx\<lparr>RETRY := Some 3\<rparr>), LogForwardError a e3,
                LogAttempt (GetAttemptsFromContext ctx),
                Forward b (ctx\<lparr>RETRY := Some 3,
                               ATTEMPTS := Some (GetAttemptsFromContext ctx + 1)\<rparr>)]\<rparr>) \<and>
     A\<lparr>Alive := False\<rparr> \<in> set (markBackend (Some a) False (backends s)) \<and>
     Alive B \<and> B \<in> set (markBackend (Some a) False (backends s))"
proof -
  have f: "11 + k = Suc (Suc (Suc (Suc (Suc (Suc (Suc (Suc (Suc (Suc (Suc k))))))))))"
    by simp
  have run: "lb_run (11 + k) env (CallLbalancer ctx) s =
     Some (Served b,
           s\<lparr>backends := markBackend (Some a) False (backends s),
             current := current s + 2,
             clock := clock s + 5,
             trace := trace s @
               [Forward a ctx, LogForwardError a e0, Sleep (Duration env 0),
                Forward a (ctx\<lparr>RETRY := Some 1\<rparr>), LogForwardError a e1, Sleep (Duration env 1),
                Forward a (ctx\<lparr>RETRY := Some 2\<rparr>), LogForwardError a e2, Sleep (Duration env 2),
                Forward a (ctx\<lparr>RETRY := Some 3\<rparr>), LogForwardError a e3,
                LogAttempt (GetAttemptsFromContext ctx),
                Forward b (ctx\<lparr>RETRY := Some 3,
                               ATTEMPTS := Some (GetAttemptsFromContext ctx + 1)\<rparr>)]\<rparr>)"
    unfolding f using assms
    by (simp add: step_Lbalancer step_ServeHTTP step_ErrorHandler_retry step_ErrorHandler_reroute
        GetRetryFromContext_def GetAttemptsFromContext_def retry_numerals numeral_eq_Suc)
  have "A \<in> set (backends s)"
    using scanPeers_in_pool [OF assms(1)] by simp
  from markBackend_dead [OF this assms(4)]
  have dead: "A\<lparr>Alive := False\<rparr> \<in> set (markBackend (Some a) False (backends s))"
    by (simp add: assms(2))
  from run dead scanPeers_in_pool [OF assms(10)] show ?thesis
    by simp
qed

theorem four_failures_then_reroute_witness:
  "lb_run 11 (lb_env_sample (fails_first ''http://a.internal:8080'' 4)) (CallLbalancer ctx0) pool_ba =
     Some (Served ''http://b.internal:8080'',
           pool_ba\<lparr>backends := [backend_of ''http://b.internal:8080'' True,
                                   backend_of ''http://a.internal:8080'' False],
                   current := 2, clock := 5,
                   trace :=
                     [Forward ''http://a.internal:8080'' ctx0,
                      LogForwardError ''http://a.internal:8080'' (ExternalError ''dial tcp: connection refused''),
                      Sleep 100,
                      Forward ''http://a.internal:8080'' (ctx0\<lparr>RETRY := Some 1\<rparr>),
                      LogForwardError ''http://a.internal:8080'' (ExternalError ''dial tcp: connection refused''),
                      Sleep 200,
                      Forward ''http://a.internal:8080'' (ctx0\<lparr>RETRY := Some 2\<rparr>),
                      LogForwardError ''http://a.internal:8080'' (ExternalError ''dial tcp: connection refused''),
                      Sleep 400,
                      Forward ''http://a.internal:8080'' (ctx0\<lparr>RETRY := Some 3\<rparr>),
                      LogForwardError ''http://a.internal:8080'' (ExternalError ''dial tcp: connection refused''),
                      LogAttempt 0,
                      Forward ''http://b.internal:8080'' (ctx0\<lparr>RETRY := Some 3, ATTEMPTS := Some 1\<rparr>)]\<rparr>)"
proof -
  let ?a = "''http://a.internal:8080''" and ?b = "''http://b.internal:8080''"
  let ?env = "lb_env_sample (fails_first ?a 4)"
  let ?e = "ExternalError ''dial tcp: connection refused''"
  have cur: "current pool_ba = 0" and clk: "clock pool_ba = 0" and tr: "trace pool_ba = []"
    by (simp_all add: pool_ba_def)
  have h1: "scanPeers (backends pool_ba) (current pool_ba + 1) = Some (backend_of ?a True)"
    by (simp only: cur add_0 scanPeers_pool_ba)
  have h2: "URL (backend_of ?a True) = Some ?a"
    and h3: "ReverseProxy (backend_of ?a True) = NewSingleHostReverseProxy (Some ?a)"
    and h11: "ReverseProxy (backend_of ?b True) = NewSingleHostReverseProxy (Some ?b)"
    by (simp_all add: backend_of_def)
  have h4: "distinct (map URL (backends pool_ba))"
    by (simp add: pool_ba_def backend_of_def)
  have h5: "RETRY ctx0 = None"
    by (simp add: ctx0_def)
  have h6: "upstream ?env ?a (clock pool_ba) = Some ?e"
    and h7: "upstream ?env ?a (clock pool_ba + 1) = Some ?e"
    and h8: "upstream ?env ?a (clock pool_ba + 2) = Some ?e"
    and h9: "upstream ?env ?a (clock pool_ba + 3) = Some ?e"
    and h12: "upstream ?env ?b (clock pool_ba + 4) = None"
    by (simp_all add: lb_env_sample_fields fails_first_def clk)
  have h10: "scanPeers (markBackend (Some ?a) False (backends pool_ba)) (current pool_ba + 2) =
               Some (backend_of ?b True)"
    by (simp only: cur add_0 scanPeers_pool_ba)
  have m: "markBackend (Some ?a) False (backends pool_ba) = [backend_of ?b True, backend_of ?a False]"
    by (simp add: pool_ba_def backend_of_def)
  from four_failures_then_reroute [OF h1 h2 h3 h4 h5 h6 h7 h8 h9 h10 h11 h12, of 0]
  show ?thesis
    by (simp add: m cur clk tr lb_env_sample_fields GetAttemptsFromContext_def ctx0_def)
qed

text \<open>
  With three consecutive failures only, the fourth attempt is still made on the
  same backend; when it succeeds the request ends there.
\<close>

lemma three_failures_then_served:
  assumes "scanPeers (backends s) (current s + 1) = Some A"
    and "ReverseProxy A = NewSingleHostReverseProxy (Some a)"
    and "RETRY ctx = None"
    and "upstream env a (clock s) = Some e0"
    and "upstream env a (clock s + 1) = Some e1"
    and "upstream env a (clock s + 2) = Some e2"
    and "upstream env a (clock s + 3) = None"
  shows "lb_run (8 + k) env (CallLbalancer ctx) s =
     Some (Served a,
           s\<lparr>current := current s + 1,
             clock := clock s + 4,
             trace := trace s @
               [Forward a ctx, LogForwardError a e0, Sleep (Duration env 0),
                Forward a (ctx\<lparr>RETRY := Some 1\<rparr>), LogForwardError a e1, Sleep (Duration env 1),
                Forward a (ctx\<lparr>RETRY := Some 2\<rparr>), LogForwardError a e2, Sleep (Duration env 2),
                Forward a (ctx\<lparr>RETRY := Some 3\<rparr>)]\<rparr>)"
proof -
  have f: "8 + k = Suc (Suc (Suc (Suc (Suc (Suc (Suc (Suc k)))))))"
    by simp
  show ?thesis
    unfolding f using assms
    by (simp add: step_Lbalancer step_ServeHTTP step_ErrorHandler_retry
        GetRetryFromContext_def retry_numerals numeral_eq_Suc)
qed

text \<open>
  Claim C1 as stated fails: after three consecutive failures and three sleeps the
  router forwards to A a fourth time; if that attempt succeeds A serves the request,
  A stays alive, the attempt counter is not touched and the router is not re-entered.
\<close>

theorem three_failures_then_success_counterexample:
  "lb_run 11 (lb_env_sample (fails_first ''http://a.internal:8080'' 3)) (CallLbalancer ctx0) pool_ba =
     Some (Served ''http://a.internal:8080'',
           pool_ba\<lparr>current := 1, clock := 4,
                   trace :=
                     [Forward ''http://a.internal:8080'' ctx0,
                      LogForwardError ''http://a.internal:8080'' (ExternalError ''dial tcp: connection refused''),
                      Sleep 100,
                      Forward ''http://a.internal:8080'' (ctx0\<lparr>RETRY := Some 1\<rparr>),
                      LogForwardError ''http://a.internal:8080'' (ExternalError ''dial tcp: connection refused''),
                      Sleep 200,
                      Forward ''http://a.internal:8080'' (ctx0\<lparr>RETRY := Some 2\<rparr>),
                      LogForwardError ''http://a.internal:8080'' (ExternalError ''dial tcp: connection refused''),
                      Sleep 400,
                      Forward ''http://a.internal:8080'' (ctx0\<lparr>RETRY := Some 3\<rparr>)]\<rparr>) \<and>
   map Alive (backends pool_ba) = [True, True]"
proof -
  let ?a = "''http://a.internal:8080''"
  let ?env = "lb_env_sample (fails_first ?a 3)"
  let ?e = "ExternalError ''dial tcp: connection refused''"
  have cur: "current pool_ba = 0" and clk: "clock pool_ba = 0" and tr: "trace pool_ba = []"
    by (simp_all add: pool_ba_def)
  have h1: "scanPeers (backends pool_ba) (current pool_ba + 1) = Some (backend_of ?a True)"
    by (simp only: cur add_0 scanPeers_pool_ba)
  have h2: "ReverseProxy (backend_of ?a True) = NewSingleHostReverseProxy (Some ?a)"
    by (simp add: backend_of_def)
  have h3: "RETRY ctx0 = None"
    by (simp add: ctx0_def)
  have h4: "upstream ?env ?a (clock pool_ba) = Some ?e"
    and h5: "upstream ?env ?a (clock pool_ba + 1) = Some ?e"
    and h6: "upstream ?env ?a (clock pool_ba + 2) = Some ?e"
    and h7: "upstream ?env ?a (clock pool_ba + 3) = None"
    by (simp_all add: lb_env_sample_fields fails_first_def clk)
  have al: "map Alive (backends pool_ba) = [True, True]"
    by (simp add: pool_ba_def backend_of_def)
  from three_failures_then_served [OF h1 h2 h3 h4 h5 h6 h7, of 3] al
  show ?thesis
    by (simp add: cur clk tr lb_env_sample_fields)
qed


text \<open>
  Claim C2. When the error handler of a backend is called with a context whose
  retry count is below 3, it logs the error, sleeps for the backoff duration of that
  count, derives a context with the count incremented by one and forwards the same
  request through the same backend's handle: the next forwarding attempt goes to the
  same target with the derived context, and neither the pool nor its cursor has
  changed, so no peer was selected. If that attempt fails too, the same backend's
  handler is called with the derived context.
\<close>

theorem retry_below_three_reforwards_same_backend:
  assumes "GetRetryFromContext ctx <s 3"
  shows "lb_run (Suc (Suc n)) env (CallErrorHandler (Some u) ctx e) s =
     (let ctx' = ctx\<lparr>RETRY := Some (GetRetryFromContext ctx + 1)\<rparr>;
          s' = s\<lparr>clock := clock s + 1,
                 trace := trace s @ [LogForwardError u e,
                                     Sleep (Duration env (GetRetryFromContext ctx)),
                                     Forward u ctx']\<rparr>
      in case upstream env u (clock s) of
           None \<Rightarrow> Some (Served u, s')
         | Some e' \<Rightarrow> lb_run n env (CallErrorHandler (Some u) ctx' e') s')"
  using assms
  by (simp add: step_ErrorHandler_retry step_ServeHTTP Let_def split: option.split)

theorem retry_below_three_reforwards_same_backend_witness:
  "GetRetryFromContext (ctx0\<lparr>RETRY := Some 2\<rparr>) <s 3 \<and>
   lb_run 2 (lb_env_sample (fails_first ''http://a.internal:8080'' 0))
     (CallErrorHandler (Some ''http://a.internal:8080'') (ctx0\<lparr>RETRY := Some 2\<rparr>)
        (ExternalError ''dial tcp: connection refused'')) pool_ba =
     Some (Served ''http://a.internal:8080'',
           pool_ba\<lparr>clock := 1,
                   trace := [LogForwardError ''http://a.internal:8080''
                               (ExternalError ''dial tcp: connection refused''),
                             Sleep 400,
                             Forward ''http://a.internal:8080'' (ctx0\<lparr>RETRY := Some 3\<rparr>)]\<rparr>)"
proof -
  have h: "GetRetryFromContext (ctx0\<lparr>RETRY := Some 2\<rparr>) <s 3"
    by (simp add: GetRetryFromContext_def retry_numerals)
  have two: "(2::nat) = Suc (Suc 0)"
    by simp
  from retry_below_three_reforwards_same_backend [OF h, of 0
      "lb_env_sample (fails_first ''http://a.internal:8080'' 0)" "''http://a.internal:8080''"
      "ExternalError ''dial tcp: connection refused''" pool_ba] h
  show ?thesis
    unfolding two
    by (simp add: Let_def lb_env_sample_fields fails_first_def GetRetryFromContext_def pool_ba_def)
qed

text \<open>
  Claim C10. A call of the error handler with a retry count below 3 leaves the
  backends and the cursor of the pool as they were, and hands the request to the
  handle of its own backend with the attempt counter of the context unchanged; it
  never hands it to \<open>Lbalancer\<close>. (With a nil \<open>serverUrl\<close> the handler panics on
  its first line and changes nothing.)
\<close>

theorem retry_below_three_leaves_pool:
  assumes "GetRetryFromContext ctx <s 3"
  shows "backends (snd (lb_ErrorHandler env serverUrl ctx e s)) = backends s \<and>
         current (snd (lb_ErrorHandler env serverUrl ctx e s)) = current s \<and>
         (case fst (lb_ErrorHandler env serverUrl ctx e s) of
            Inr (CallServeHTTP h ctx') \<Rightarrow>
              h = NewSingleHostReverseProxy serverUrl \<and> ATTEMPTS ctx' = ATTEMPTS ctx
          | Inr (CallLbalancer ctx') \<Rightarrow> False
          | Inr (CallErrorHandler u ctx' e') \<Rightarrow> False
          | Inl r \<Rightarrow> serverUrl = None)"
  using assms
  by (simp add: lb_ErrorHandler_def emit_def Let_def split: option.split)

theorem retry_below_three_leaves_pool_witness:
  "GetRetryFromContext (ctx0\<lparr>RETRY := Some 2, ATTEMPTS := Some 1\<rparr>) <s 3 \<and>
   backends (snd (lb_ErrorHandler (lb_env_sample (fails_first ''http://a.internal:8080'' 4))
                    (Some ''http://a.internal:8080'') (ctx0\<lparr>RETRY := Some 2, ATTEMPTS := Some 1\<rparr>)
                    (ExternalError ''dial tcp: connection refused'') pool_ba)) = backends pool_ba \<and>
   current (snd (lb_ErrorHandler (lb_env_sample (fails_first ''http://a.internal:8080'' 4))
                    (Some ''http://a.internal:8080'') (ctx0\<lparr>RETRY := Some 2, ATTEMPTS := Some 1\<rparr>)
                    (ExternalError ''dial tcp: connection refused'') pool_ba)) = current pool_ba"
proof -
  have h: "GetRetryFromContext (ctx0\<lparr>RETRY := Some 2, ATTEMPTS := Some 1\<rparr>) <s 3"
    by (simp add: GetRetryFromContext_def retry_numerals)
  from retry_below_three_leaves_pool [OF h] h show ?thesis
    by blast
qed

lemma reroute_only_at_three:
  "backends (snd (lb_ErrorHandler env serverUrl ctx e s)) \<noteq> backends s \<Longrightarrow>
   \<not> GetRetryFromContext ctx <s 3"
  by (auto simp: lb_ErrorHandler_def emit_def Let_def split: option.splits)

text \<open>
  Claim C7 does not hold of the code. The parse error of a token is logged, but the
  loop goes on with the nil URL: where building the proxy dereferences it the process
  panics and the backends after it in the list are never configured; where it does
  not, a backend with a nil URL is added to the pool, alive.
\<close>

theorem StartLB_malformed_not_skipped:
  "fst (StartLB (go_env_sample True) ''http://a.internal:8080,:9090,http://b.internal:8080'') =
     Some NilPointerDereference \<and>
   map URL (backends (snd (StartLB (go_env_sample True)
                             ''http://a.internal:8080,:9090,http://b.internal:8080''))) =
     [Some ''http://a.internal:8080''] \<and>
   fst (StartLB (go_env_sample False) ''http://a.internal:8080,:9090,http://b.internal:8080'') = None \<and>
   backends (snd (StartLB (go_env_sample False)
                    ''http://a.internal:8080,:9090,http://b.internal:8080'')) =
     [backend_of ''http://a.internal:8080'' True,
      \<lparr>URL = None, Alive = True, ReverseProxy = NewSingleHostReverseProxy None\<rparr>,
      backend_of ''http://b.internal:8080'' True]"
proof -
  have sp: "Split ''http://a.internal:8080,:9090,http://b.internal:8080'' '','' =
              [''http://a.internal:8080'', '':9090'', ''http://b.internal:8080'']"
    by (simp add: Split_def HasPrefix_def)
  have p: "parse_sample ''http://a.internal:8080'' = Inr ''http://a.internal:8080''"
    "parse_sample '':9090'' = Inl (ExternalError ''parse: missing protocol scheme'')"
    "parse_sample ''http://b.internal:8080'' = Inr ''http://b.internal:8080''"
    by (simp_all add: parse_sample_def HasPrefix_def)
  show ?thesis
    by (simp add: StartLB_def sp p go_env_sample_def AddBackend_def emit_def lb_init_def backend_of_def)
qed


end
